theory Spec2Isabelle
  imports Complex_Main "HOL-Library.Sublist"
begin

section \<open>Python values\<close>

text \<open>
  The values that \<^verbatim>\<open>response.json()\<close> hands to the script. A JSON number is a Python
  \<^verbatim>\<open>int\<close> (unbounded) or a \<^verbatim>\<open>float\<close>; Python's decoder also accepts the
  literals \<^verbatim>\<open>Infinity\<close>, \<^verbatim>\<open>-Infinity\<close> and \<^verbatim>\<open>NaN\<close>. A finite float is
  represented by the real number it denotes: rounding and overflow of float arithmetic
  are not part of this development.
\<close>

datatype number = PyInt int | PyFloat real | PyInf | PyNegInf | PyNaN

datatype json =
    JNull
  | JBool bool
  | JNumber number
  | JString string
  | JArray "json list"
  | JObject "(string \<times> json) list"

text \<open>
  The exceptions the script can meet. All of them derive from \<^verbatim>\<open>Exception\<close>.
  \<open>PandasKeyError\<close> is the \<^verbatim>\<open>KeyError\<close> that pandas raises for column labels
  that a frame does not have; it carries the missing labels.
\<close>

datatype exn =
    RequestException string
  | HTTPError nat
  | JSONDecodeError
  | KeyError string
  | TypeError
  | ValueError
  | PandasKeyError "string list"

text \<open>Sequencing of steps that may raise: the first exception ends the computation.\<close>

fun and_then :: "exn + 'a \<Rightarrow> ('a \<Rightarrow> exn + 'b) \<Rightarrow> exn + 'b" where
  "and_then (Inl e) f = Inl e"
| "and_then (Inr x) f = f x"

text \<open>\<^verbatim>\<open>x >= k\<close> and \<^verbatim>\<open>x * k\<close> for a number \<open>x\<close> and an \<^verbatim>\<open>int\<close> \<open>k\<close>.\<close>

fun num_ge :: "number \<Rightarrow> int \<Rightarrow> bool" where
  "num_ge (PyInt i) k = (k \<le> i)"
| "num_ge (PyFloat x) k = (real_of_int k \<le> x)"
| "num_ge PyInf k = True"
| "num_ge PyNegInf k = False"
| "num_ge PyNaN k = False"

fun num_lt :: "number \<Rightarrow> int \<Rightarrow> bool" where
  "num_lt (PyInt i) k = (i < k)"
| "num_lt (PyFloat x) k = (x < real_of_int k)"
| "num_lt PyInf k = False"
| "num_lt PyNegInf k = True"
| "num_lt PyNaN k = False"

fun num_mul :: "number \<Rightarrow> int \<Rightarrow> number" where
  "num_mul (PyInt i) k = PyInt (i * k)"
| "num_mul (PyFloat x) k = PyFloat (x * real_of_int k)"
| "num_mul PyInf k = (if 0 < k then PyInf else if k < 0 then PyNegInf else PyNaN)"
| "num_mul PyNegInf k = (if 0 < k then PyNegInf else if k < 0 then PyInf else PyNaN)"
| "num_mul PyNaN k = PyNaN"

text \<open>
  The same operators on arbitrary decoded values, as Python dispatches them: a
  \<^verbatim>\<open>bool\<close> is the integer 0 or 1, a string or a list cannot be ordered against an
  \<^verbatim>\<open>int\<close> but can be repeated by one, \<^verbatim>\<open>None\<close> and a \<^verbatim>\<open>dict\<close> support neither.
\<close>

fun py_ge :: "json \<Rightarrow> int \<Rightarrow> exn + bool" where
  "py_ge (JNumber n) k = Inr (num_ge n k)"
| "py_ge (JBool b) k = Inr (k \<le> (if b then 1 else 0))"
| "py_ge JNull k = Inl TypeError"
| "py_ge (JString s) k = Inl TypeError"
| "py_ge (JArray xs) k = Inl TypeError"
| "py_ge (JObject kvs) k = Inl TypeError"

fun py_mul :: "json \<Rightarrow> int \<Rightarrow> exn + json" where
  "py_mul (JNumber n) k = Inr (JNumber (num_mul n k))"
| "py_mul (JBool b) k = Inr (JNumber (PyInt ((if b then 1 else 0) * k)))"
| "py_mul (JString s) k = Inr (JString (concat (replicate (nat k) s)))"
| "py_mul (JArray xs) k = Inr (JArray (concat (replicate (nat k) xs)))"
| "py_mul JNull k = Inl TypeError"
| "py_mul (JObject kvs) k = Inl TypeError"

text \<open>
  \<^verbatim>\<open>obj[key]\<close> with a string key: a lookup in a \<^verbatim>\<open>dict\<close> (the association list
  holds its items, with distinct keys), \<^verbatim>\<open>KeyError\<close> for a missing key,
  \<^verbatim>\<open>TypeError\<close> on every other kind of value.
\<close>

fun getitem :: "json \<Rightarrow> string \<Rightarrow> exn + json" where
  "getitem (JObject kvs) k = (case map_of kvs k of Some v \<Rightarrow> Inr v | None \<Rightarrow> Inl (KeyError k))"
| "getitem JNull k = Inl TypeError"
| "getitem (JBool b) k = Inl TypeError"
| "getitem (JNumber n) k = Inl TypeError"
| "getitem (JString s) k = Inl TypeError"
| "getitem (JArray xs) k = Inl TypeError"

section \<open>Timestamps\<close>

text \<open>
  A \<^verbatim>\<open>datetime\<close> object. \<open>tzinfo\<close> is the UTC offset in seconds of an aware
  object and \<open>None\<close> for a naive one. The constructor of the class admits only the
  field values described by \<open>valid_datetime\<close>.
\<close>

record datetime =
  year :: nat
  month :: nat
  day :: nat
  hour :: nat
  minute :: nat
  second :: nat
  microsecond :: nat
  tzinfo :: "int option"

definition is_leap :: "nat \<Rightarrow> bool" where
  "is_leap y = (y mod 4 = 0 \<and> (y mod 100 \<noteq> 0 \<or> y mod 400 = 0))"

definition days_in_month :: "nat \<Rightarrow> nat \<Rightarrow> nat" where
  "days_in_month y m =
     (if m = 2 then (if is_leap y then 29 else 28)
      else if m = 4 \<or> m = 6 \<or> m = 9 \<or> m = 11 then 30 else 31)"

definition valid_datetime :: "datetime \<Rightarrow> bool" where
  "valid_datetime dt =
     (1 \<le> year dt \<and> year dt \<le> 9999 \<and> 1 \<le> month dt \<and> month dt \<le> 12 \<and>
      1 \<le> day dt \<and> day dt \<le> days_in_month (year dt) (month dt) \<and>
      hour dt < 24 \<and> minute dt < 60 \<and> second dt < 60 \<and> microsecond dt < 1000000)"

text \<open>Decimal rendering of a natural number, and left padding with zeros.\<close>

definition digit_char :: "nat \<Rightarrow> char" where
  "digit_char d = ''0123456789'' ! (d mod 10)"

fun dec :: "nat \<Rightarrow> string" where
  "dec n = (if n < 10 then [digit_char n] else dec (n div 10) @ [digit_char (n mod 10)])"

declare dec.simps [simp del]

definition zfill :: "nat \<Rightarrow> string \<Rightarrow> string" where
  "zfill w s = replicate (w - length s) (CHR ''0'') @ s"

text \<open>
  \<^verbatim>\<open>dt.strftime(fmt)\<close> for the directives the script uses, as the Python
  documentation describes them: \<^verbatim>\<open>%Y\<close> is the year with century, zero-padded to four
  digits, \<^verbatim>\<open>%m\<close>, \<^verbatim>\<open>%d\<close>, \<^verbatim>\<open>%H\<close>, \<^verbatim>\<open>%M\<close> and \<^verbatim>\<open>%S\<close> are zero-padded to two.
  Any other character pair after a percent sign is copied unchanged, which is outside
  what the script relies on.
\<close>

definition directive :: "datetime \<Rightarrow> char \<Rightarrow> string" where
  "directive dt c =
     (if c = CHR ''Y'' then zfill 4 (dec (year dt))
      else if c = CHR ''m'' then zfill 2 (dec (month dt))
      else if c = CHR ''d'' then zfill 2 (dec (day dt))
      else if c = CHR ''H'' then zfill 2 (dec (hour dt))
      else if c = CHR ''M'' then zfill 2 (dec (minute dt))
      else if c = CHR ''S'' then zfill 2 (dec (second dt))
      else [CHR ''%'', c])"

fun strftime :: "datetime \<Rightarrow> string \<Rightarrow> string" where
  "strftime dt [] = []"
| "strftime dt [c] = [c]"
| "strftime dt (c # d # cs) =
     (if c = CHR ''%'' then directive dt d @ strftime dt cs else c # strftime dt (d # cs))"

section \<open>The world outside the script\<close>

text \<open>
  The location table maps a name to a \<^verbatim>\<open>{'lat': ..., 'lon': ...}\<close> dictionary. The
  output rows carry the same two keys, so the row record extends this one.
\<close>

record coords =
  lat :: real
  lon :: real

record request =
  url :: string
  params :: "(string \<times> json) list"

text \<open>
  A response of the HTTP library: its status code, and what decoding its body as JSON
  gives (\<open>None\<close> when the body is not JSON).
\<close>

record response =
  status_code :: nat
  json_body :: "json option"

text \<open>
  The environment: \<open>http_get env n req\<close> is what \<^verbatim>\<open>requests.get\<close> does on the
  request \<open>req\<close> when \<open>n\<close> requests have been sent before it, an exception or a
  response; the network may answer the same request differently at different times.
  \<open>fromisoformat env s\<close> is what the interpreter's \<^verbatim>\<open>datetime.fromisoformat\<close> makes
  of the string \<open>s\<close>, \<open>None\<close> where it raises \<^verbatim>\<open>ValueError\<close>. The accepted
  notations differ between Python versions, so the parser belongs to the environment.
\<close>

record env =
  http_get :: "nat \<Rightarrow> request \<Rightarrow> exn + response"
  fromisoformat :: "string \<Rightarrow> datetime option"

text \<open>One row of the result: the dictionary appended to \<^verbatim>\<open>weather_info\<close>.\<close>

record row = coords +
  City :: string
  Temperature :: json
  Time :: string
  color :: "int list"
  elevation :: json

text \<open>
  A pandas frame: its column labels and its rows. \<^verbatim>\<open>pd.DataFrame(records)\<close> takes
  the columns from the keys of the dictionaries, so a frame built from an empty list
  has no columns at all.
\<close>

record dataframe =
  columns :: "string list"
  records :: "row list"

definition DataFrame :: "row list \<Rightarrow> dataframe" where
  "DataFrame weather_info =
     \<lparr>columns = (if weather_info = [] then []
                 else [''City'', ''lat'', ''lon'', ''Temperature'', ''Time'', ''color'', ''elevation'']),
      records = weather_info\<rparr>"

text \<open>
  What the script has done so far: the requests it has sent, the elements it has put on
  the page in the current run, and the one entry of the \<^verbatim>\<open>st.cache_data\<close> store
  (time of storage, cached frame, and the elements the cached function emitted).
  \<^verbatim>\<open>st.error(f"Error fetching {city}: {e}")\<close> is recorded by the two values
  interpolated into the message.
\<close>

datatype element =
    StError string exn
  | StDataframe dataframe
  | StInfo
  | StButton
  | StPydeckChart dataframe

record world =
  requests_sent :: "request list"
  page :: "element list"
  cache :: "(nat \<times> dataframe \<times> element list) option"

section \<open>The script\<close>

definition target_cities :: "(string \<times> coords) list" where
  "target_cities =
     [(''Fukuoka'',   \<lparr>lat = 33.5904, lon = 130.4017\<rparr>),
      (''Saga'',      \<lparr>lat = 33.2494, lon = 130.2974\<rparr>),
      (''Nagasaki'',  \<lparr>lat = 32.7450, lon = 129.8739\<rparr>),
      (''Kumamoto'',  \<lparr>lat = 32.7900, lon = 130.7420\<rparr>),
      (''Oita'',      \<lparr>lat = 33.2381, lon = 131.6119\<rparr>),
      (''Miyazaki'',  \<lparr>lat = 31.9110, lon = 131.4240\<rparr>),
      (''Kagoshima'', \<lparr>lat = 31.5600, lon = 130.5580\<rparr>),
      (''Osaka'',     \<lparr>lat = 34.6937, lon = 135.5023\<rparr>),
      (''Tokyo'',     \<lparr>lat = 35.6895, lon = 139.6917\<rparr>)]"

definition BASE_URL :: string where
  "BASE_URL = ''https://api.open-meteo.com/v1/forecast''"

definition make_params :: "coords \<Rightarrow> (string \<times> json) list" where
  "make_params c =
     [(''latitude'', JNumber (PyFloat (lat c))),
      (''longitude'', JNumber (PyFloat (lon c))),
      (''current'', JString ''temperature_2m''),
      (''timezone'', JString ''Asia/Tokyo'')]"

definition requests_get :: "env \<Rightarrow> string \<Rightarrow> (string \<times> json) list \<Rightarrow> world \<Rightarrow> (exn + response) \<times> world" where
  "requests_get env u ps w =
     (let req = \<lparr>url = u, params = ps\<rparr>
      in (http_get env (length (requests_sent w)) req,
          w\<lparr>requests_sent := requests_sent w @ [req]\<rparr>))"

definition raise_for_status :: "response \<Rightarrow> exn + unit" where
  "raise_for_status r =
     (if 400 \<le> status_code r \<and> status_code r < 600 then Inl (HTTPError (status_code r))
      else Inr ())"

definition response_json :: "response \<Rightarrow> exn + json" where
  "response_json r = (case json_body r of None \<Rightarrow> Inl JSONDecodeError | Some v \<Rightarrow> Inr v)"

definition datetime_fromisoformat :: "env \<Rightarrow> json \<Rightarrow> exn + datetime" where
  "datetime_fromisoformat env v =
     (case v of
        JString s \<Rightarrow> (case fromisoformat env s of None \<Rightarrow> Inl ValueError | Some dt \<Rightarrow> Inr dt)
      | _ \<Rightarrow> Inl TypeError)"

definition pick_color :: "json \<Rightarrow> exn + int list" where
  "pick_color temp =
     and_then (py_ge temp 20) (\<lambda>hot.
       if hot then Inr [255, 100, 0, 200]
       else and_then (py_ge temp 10) (\<lambda>mild.
         if mild then Inr [255, 200, 0, 200]
         else Inr [0, 150, 255, 200]))"

text \<open>
  The body of the \<^verbatim>\<open>try\<close> block, from the response of \<^verbatim>\<open>requests.get\<close> on: every
  step that can raise is a step of the chain, in the order the script evaluates them.
\<close>

definition read_response :: "env \<Rightarrow> string \<Rightarrow> coords \<Rightarrow> exn + response \<Rightarrow> exn + row" where
  "read_response env city c got =
     and_then got (\<lambda>response.
     and_then (raise_for_status response) (\<lambda>_.
     and_then (response_json response) (\<lambda>data.
     and_then (getitem data ''current'') (\<lambda>cur.
     and_then (getitem cur ''time'') (\<lambda>t.
     and_then (datetime_fromisoformat env t) (\<lambda>dt.
     let time_str = strftime dt ''%Y/%m/%d %H:%M'' in
     and_then (getitem data ''current'') (\<lambda>cur'.
     and_then (getitem cur' ''temperature_2m'') (\<lambda>temp.
     and_then (pick_color temp) (\<lambda>col.
     and_then (py_mul temp 5000) (\<lambda>elev.
       Inr \<lparr>lat = lat c, lon = lon c, City = city, Temperature = temp,
            Time = time_str, color = col, elevation = elev\<rparr>))))))))))"

definition try_city :: "env \<Rightarrow> string \<Rightarrow> coords \<Rightarrow> world \<Rightarrow> (exn + row) \<times> world" where
  "try_city env city c w =
     (let (got, w') = requests_get env BASE_URL (make_params c) w
      in (read_response env city c got, w'))"

definition st_error :: "string \<Rightarrow> exn \<Rightarrow> world \<Rightarrow> world" where
  "st_error city e w = w\<lparr>page := page w @ [StError city e]\<rparr>"

text \<open>The \<^verbatim>\<open>for\<close> loop over the items of the table, with its \<^verbatim>\<open>except Exception\<close>.\<close>

fun for_cities :: "env \<Rightarrow> (string \<times> coords) list \<Rightarrow> row list \<times> world \<Rightarrow> row list \<times> world" where
  "for_cities env [] (weather_info, w) = (weather_info, w)"
| "for_cities env ((city, c) # rest) (weather_info, w) =
     (case try_city env city c w of
        (Inr r, w') \<Rightarrow> for_cities env rest (weather_info @ [r], w')
      | (Inl e, w') \<Rightarrow> for_cities env rest (weather_info, st_error city e w'))"

text \<open>
  \<^verbatim>\<open>fetch_weather_data\<close>; the table it iterates over, a global of the script, is an
  argument here.
\<close>

definition fetch_weather_data :: "env \<Rightarrow> (string \<times> coords) list \<Rightarrow> world \<Rightarrow> dataframe \<times> world" where
  "fetch_weather_data env cities w =
     (let (weather_info, w') = for_cities env cities ([], w)
      in (DataFrame weather_info, w'))"

text \<open>
  The \<^verbatim>\<open>@st.cache_data(ttl=600)\<close> wrapper, as Streamlit documents it: the function has
  no arguments, so the store holds at most one entry; an entry is served while it is
  younger than the time to live, together with the elements the function emitted when
  it ran; otherwise the function runs and its result replaces the entry. \<open>now\<close> is
  the clock reading, in seconds, of the run that makes the call.
\<close>

definition ttl :: nat where
  "ttl = 600"

definition cached_fetch_weather_data :: "env \<Rightarrow> nat \<Rightarrow> world \<Rightarrow> dataframe \<times> world" where
  "cached_fetch_weather_data env now w =
     (let miss = (let (df, w') = fetch_weather_data env target_cities w;
                      emitted = drop (length (page w)) (page w')
                  in (df, w'\<lparr>cache := Some (now, df, emitted)\<rparr>))
      in case cache w of
           None \<Rightarrow> miss
         | Some (stored, df, emitted) \<Rightarrow>
             if now < stored + ttl then (df, w\<lparr>page := page w @ emitted\<rparr>) else miss)"

text \<open>
  \<^verbatim>\<open>df[labels]\<close> with a list of labels: pandas raises \<^verbatim>\<open>KeyError\<close> when a label is
  not a column of the frame.
\<close>

definition select_columns :: "dataframe \<Rightarrow> string list \<Rightarrow> exn + dataframe" where
  "select_columns df labels =
     (let missing = filter (\<lambda>l. l \<notin> set (columns df)) labels
      in if missing = [] then Inr (df\<lparr>columns := labels\<rparr>) else Inl (PandasKeyError missing))"

text \<open>
  One run of the script from top to bottom. \<open>clicked\<close> says whether the run was
  started by a press of the button, in which case \<^verbatim>\<open>st.button\<close> returns \<^verbatim>\<open>True\<close>.
  Nothing at the top level of the script catches an exception, so one that is raised
  there ends the run; \<^verbatim>\<open>st.rerun()\<close> ends it too and asks for another run. The
  widgets are taken to accept any frame that has the columns they are given.
\<close>

datatype outcome = Raised exn | RerunRequested | Finished

definition put :: "element \<Rightarrow> world \<Rightarrow> world" where
  "put el w = w\<lparr>page := page w @ [el]\<rparr>"

definition cache_data_clear :: "world \<Rightarrow> world" where
  "cache_data_clear w = w\<lparr>cache := None\<rparr>"

definition script :: "env \<Rightarrow> nat \<Rightarrow> bool \<Rightarrow> world \<Rightarrow> outcome \<times> world" where
  "script env now clicked w0 =
     (let (df, w1) = cached_fetch_weather_data env now (w0\<lparr>page := []\<rparr>)
      in case select_columns df [''City'', ''Temperature'', ''Time''] of
           Inl e \<Rightarrow> (Raised e, w1)
         | Inr listing \<Rightarrow>
             (let w2 = put StButton (put StInfo (put (StDataframe listing) w1))
              in if clicked then (RerunRequested, cache_data_clear w2)
                 else (Finished, put (StPydeckChart df) w2)))"


definition fresh_world :: world where
  "fresh_world = \<lparr>requests_sent = [], page = [], cache = None\<rparr>"

section \<open>What one location yields\<close>

text \<open>
  The result of the \<^verbatim>\<open>try\<close> block for a location whose request is the \<open>n\<close>-th one
  sent, and the results for a whole table whose first request is the \<open>n\<close>-th.
\<close>

definition request_for :: "string \<times> coords \<Rightarrow> request" where
  "request_for entry = \<lparr>url = BASE_URL, params = make_params (snd entry)\<rparr>"

definition read_city :: "env \<Rightarrow> nat \<Rightarrow> string \<times> coords \<Rightarrow> exn + row" where
  "read_city env n entry =
     read_response env (fst entry) (snd entry) (http_get env n (request_for entry))"

fun readings :: "env \<Rightarrow> nat \<Rightarrow> (string \<times> coords) list \<Rightarrow> (exn + row) list" where
  "readings env n [] = []"
| "readings env n (entry # rest) = read_city env n entry # readings env (Suc n) rest"

fun successes :: "(exn + row) list \<Rightarrow> row list" where
  "successes [] = []"
| "successes (Inr r # xs) = r # successes xs"
| "successes (Inl e # xs) = successes xs"

fun failures :: "(string \<times> coords) list \<Rightarrow> (exn + row) list \<Rightarrow> element list" where
  "failures (entry # rest) (Inl e # xs) = StError (fst entry) e # failures rest xs"
| "failures (entry # rest) (Inr r # xs) = failures rest xs"
| "failures [] xs = []"
| "failures rest [] = []"

fun succeeded :: "(string \<times> coords) list \<Rightarrow> (exn + row) list \<Rightarrow> string list" where
  "succeeded (entry # rest) (Inr r # xs) = fst entry # succeeded rest xs"
| "succeeded (entry # rest) (Inl e # xs) = succeeded rest xs"
| "succeeded [] xs = []"
| "succeeded rest [] = []"

text \<open>The three display colours, by the names the specification gives their buckets.\<close>

datatype colorBucket = high | mid | low

fun bucket_color :: "colorBucket \<Rightarrow> int list" where
  "bucket_color high = [255, 100, 0, 200]"
| "bucket_color mid = [255, 200, 0, 200]"
| "bucket_color low = [0, 150, 255, 200]"

definition colorBucket_of :: "row \<Rightarrow> colorBucket option" where
  "colorBucket_of r =
     (if color r = bucket_color high then Some high
      else if color r = bucket_color mid then Some mid
      else if color r = bucket_color low then Some low
      else None)"

text \<open>The numeric reading of a value that Python can compare with an \<^verbatim>\<open>int\<close>.\<close>

fun as_number :: "json \<Rightarrow> number option" where
  "as_number (JNumber n) = Some n"
| "as_number (JBool b) = Some (PyInt (if b then 1 else 0))"
| "as_number v = None"

text \<open>
  A string has the layout of a pattern when it has a decimal digit wherever the
  pattern has one of the letters Y, M, D, H, and the pattern's own character everywhere
  else.
\<close>

definition is_digit :: "char \<Rightarrow> bool" where
  "is_digit c = (c \<in> set ''0123456789'')"


section \<open>A sample environment\<close>

text \<open>
  A parser for the notations \<^verbatim>\<open>YYYY-MM-DD?HH:MM\<close>, optionally followed by
  \<^verbatim>\<open>:SS\<close> and by a UTC offset \<^verbatim>\<open>Z\<close> or \<^verbatim>\<open>+HH:MM\<close> or \<^verbatim>\<open>-HH:MM\<close>, which are
  among those that \<^verbatim>\<open>datetime.fromisoformat\<close> of Python 3.11 accepts. It stands in
  for the interpreter's parser in the sample runs below.
\<close>

definition digit_val :: "char \<Rightarrow> nat option" where
  "digit_val c = (if is_digit c then Some (of_char c - 48) else None)"

fun number_of :: "string \<Rightarrow> nat option" where
  "number_of [] = None"
| "number_of [c] = digit_val c"
| "number_of cs =
     (case (number_of (butlast cs), digit_val (last cs)) of
        (Some n, Some d) \<Rightarrow> Some (10 * n + d)
      | _ \<Rightarrow> None)"

definition parse_offset :: "string \<Rightarrow> int option option" where
  "parse_offset s =
     (if s = [] then Some None
      else if s = ''Z'' then Some (Some 0)
      else if length s = 6 \<and> (hd s = CHR ''+'' \<or> hd s = CHR ''-'') \<and> s ! 3 = CHR '':'' then
        (case (number_of (take 2 (drop 1 s)), number_of (drop 4 s)) of
           (Some h, Some m) \<Rightarrow>
             if h < 24 \<and> m < 60
             then Some (Some ((if hd s = CHR ''-'' then -1 else 1) * int (3600 * h + 60 * m)))
             else None
         | _ \<Rightarrow> None)
      else None)"

definition parse_seconds :: "string \<Rightarrow> (nat \<times> string) option" where
  "parse_seconds s =
     (if s \<noteq> [] \<and> hd s = CHR '':'' then
        (case number_of (take 2 (drop 1 s)) of
           Some n \<Rightarrow> if length s < 3 then None else Some (n, drop 3 s)
         | None \<Rightarrow> None)
      else Some (0, s))"

definition sample_fromisoformat :: "string \<Rightarrow> datetime option" where
  "sample_fromisoformat s =
     (if length s < 16 \<or> s ! 4 \<noteq> CHR ''-'' \<or> s ! 7 \<noteq> CHR ''-'' \<or> s ! 13 \<noteq> CHR '':'' then None
      else
        (case (number_of (take 4 s), number_of (take 2 (drop 5 s)), number_of (take 2 (drop 8 s)),
               number_of (take 2 (drop 11 s)), number_of (take 2 (drop 14 s)),
               parse_seconds (drop 16 s)) of
           (Some y, Some mo, Some d, Some h, Some mi, Some (sec, rest)) \<Rightarrow>
             (case parse_offset rest of
                Some tz \<Rightarrow>
                  (let dt = \<lparr>year = y, month = mo, day = d, hour = h, minute = mi,
                             second = sec, microsecond = 0, tzinfo = tz\<rparr>
                   in if valid_datetime dt then Some dt else None)
              | None \<Rightarrow> None)
         | _ \<Rightarrow> None))"

text \<open>
  A weather service answer with the given observation time and temperature, and a
  network that answers the first requests from a list and is unreachable afterwards.
\<close>

definition forecast :: "string \<Rightarrow> json \<Rightarrow> exn + response" where
  "forecast t temp =
     Inr \<lparr>status_code = 200,
          json_body = Some (JObject [(''current'',
                        JObject [(''time'', JString t), (''temperature_2m'', temp)])])\<rparr>"

definition scripted_network :: "(exn + response) list \<Rightarrow> env" where
  "scripted_network answers =
     \<lparr>http_get = (\<lambda>n req. if n < length answers then answers ! n
                            else Inl (RequestException ''unreachable'')),
      fromisoformat = sample_fromisoformat\<rparr>"

text \<open>
  A sample cycle over four locations: a reading on the upper threshold, a request that
  times out, a reading on the lower threshold with an offset in its timestamp, and a
  frost reading sent as an integer with the offset written as Z.
\<close>

definition sample_cities :: "(string \<times> coords) list" where
  "sample_cities =
     [(''Fukuoka'', \<lparr>lat = 33.5904, lon = 130.4017\<rparr>),
      (''Saga'',    \<lparr>lat = 33.2494, lon = 130.2974\<rparr>),
      (''Osaka'',   \<lparr>lat = 34.6937, lon = 135.5023\<rparr>),
      (''Tokyo'',   \<lparr>lat = 35.6895, lon = 139.6917\<rparr>)]"

definition sample_env :: env where
  "sample_env = scripted_network
     [forecast ''2024-06-01T15:00'' (JNumber (PyFloat 20)),
      Inl (RequestException ''timed out''),
      forecast ''2024-06-01T15:00+09:00'' (JNumber (PyFloat 10)),
      forecast ''2024-06-01T06:00Z'' (JNumber (PyInt (- 5)))]"

definition fukuoka_row :: row where
  "fukuoka_row =
     \<lparr>lat = 33.5904, lon = 130.4017, City = ''Fukuoka'', Temperature = JNumber (PyFloat 20),
      Time = ''2024/06/01 15:00'', color = [255, 100, 0, 200],
      elevation = JNumber (PyFloat 100000)\<rparr>"

definition osaka_row :: row where
  "osaka_row =
     \<lparr>lat = 34.6937, lon = 135.5023, City = ''Osaka'', Temperature = JNumber (PyFloat 10),
      Time = ''2024/06/01 15:00'', color = [255, 200, 0, 200],
      elevation = JNumber (PyFloat 50000)\<rparr>"

definition tokyo_row :: row where
  "tokyo_row =
     \<lparr>lat = 35.6895, lon = 139.6917, City = ''Tokyo'', Temperature = JNumber (PyInt (- 5)),
      Time = ''2024/06/01 06:00'', color = [0, 150, 255, 200],
      elevation = JNumber (PyInt (- 25000))\<rparr>"

definition sample_frame :: dataframe where
  "sample_frame =
     \<lparr>columns = [''City'', ''lat'', ''lon'', ''Temperature'', ''Time'', ''color'', ''elevation''],
      records = [fukuoka_row, osaka_row, tokyo_row]\<rparr>"

definition sample_world :: world where
  "sample_world =
     \<lparr>requests_sent = map request_for sample_cities,
      page = [StError ''Saga'' (RequestException ''timed out'')],
      cache = None\<rparr>"


definition offline :: env where
  "offline = scripted_network []"

section \<open>The loop, location by location\<close>

lemma and_then_Inr: "and_then x f = Inr y \<longleftrightarrow> (\<exists>a. x = Inr a \<and> f a = Inr y)"
  by (cases x) auto

lemma try_city_eq:
  "try_city env city c w =
     (read_city env (length (requests_sent w)) (city, c),
      w\<lparr>requests_sent := requests_sent w @ [request_for (city, c)]\<rparr>)"
  by (simp add: try_city_def requests_get_def read_city_def request_for_def Let_def)

lemma for_cities_eq:
  "for_cities env cities (acc, w) =
     (acc @ successes (readings env (length (requests_sent w)) cities),
      w\<lparr>requests_sent := requests_sent w @ map request_for cities,
        page := page w @ failures cities (readings env (length (requests_sent w)) cities)\<rparr>)"
proof (induction cities arbitrary: acc w)
  case Nil
  show ?case by simp
next
  case (Cons entry rest)
  obtain city c where entry: "entry = (city, c)" by (cases entry)
  show ?case
  proof (cases "read_city env (length (requests_sent w)) (city, c)")
    case (Inl e)
    then show ?thesis
      by (simp add: entry try_city_eq Cons.IH st_error_def)
  next
    case (Inr r)
    then show ?thesis
      by (simp add: entry try_city_eq Cons.IH)
  qed
qed

lemma fetch_weather_data_eq:
  "fetch_weather_data env cities w =
     (DataFrame (successes (readings env (length (requests_sent w)) cities)),
      w\<lparr>requests_sent := requests_sent w @ map request_for cities,
        page := page w @ failures cities (readings env (length (requests_sent w)) cities)\<rparr>)"
  by (simp add: fetch_weather_data_def for_cities_eq)

lemma length_readings [simp]: "length (readings env n cities) = length cities"
  by (induction cities arbitrary: n) auto

lemma readings_nth:
  "i < length cities \<Longrightarrow> readings env n cities ! i = read_city env (n + i) (cities ! i)"
proof (induction cities arbitrary: n i)
  case Nil
  then show ?case by simp
next
  case (Cons entry rest)
  then show ?case by (cases i) auto
qed

lemma successes_set: "set (successes xs) = {r. Inr r \<in> set xs}"
  by (induction xs rule: successes.induct) auto

lemma row_origin:
  assumes "r \<in> set (successes (readings env n cities))"
  shows "\<exists>i<length cities. read_city env (n + i) (cities ! i) = Inr r"
proof -
  from assms have "Inr r \<in> set (readings env n cities)" by (simp add: successes_set)
  then obtain i where "i < length (readings env n cities)" "readings env n cities ! i = Inr r"
    by (auto simp: in_set_conv_nth)
  then show ?thesis by (auto simp: readings_nth)
qed

lemma read_response_Inr:
  assumes "read_response env city c got = Inr r"
  shows "\<exists>resp data cur t dt temp col elev.
           got = Inr resp \<and> raise_for_status resp = Inr () \<and> response_json resp = Inr data \<and>
           getitem data ''current'' = Inr cur \<and> getitem cur ''time'' = Inr t \<and>
           datetime_fromisoformat env t = Inr dt \<and>
           getitem cur ''temperature_2m'' = Inr temp \<and>
           pick_color temp = Inr col \<and> py_mul temp 5000 = Inr elev \<and>
           r = \<lparr>lat = lat c, lon = lon c, City = city, Temperature = temp,
                Time = strftime dt ''%Y/%m/%d %H:%M'', color = col, elevation = elev\<rparr>"
  using assms unfolding read_response_def Let_def and_then_Inr by fastforce

section \<open>Colours and timestamps\<close>

lemma num_lt_not_ge: "num_lt n k \<Longrightarrow> \<not> num_ge n k"
  by (cases n) auto

lemma pick_color_Inr:
  assumes "pick_color temp = Inr col"
  shows "\<exists>n. as_number temp = Some n \<and>
             col = (if num_ge n 20 then bucket_color high
                    else if num_ge n 10 then bucket_color mid else bucket_color low)"
  using assms by (cases temp) (auto simp: pick_color_def split: if_splits)











section \<open>The sample cycle\<close>


lemma sample_times:
  "sample_fromisoformat ''2024-06-01T15:00'' =
     Some \<lparr>year = 2024, month = 6, day = 1, hour = 15, minute = 0, second = 0,
            microsecond = 0, tzinfo = None\<rparr>"
  "sample_fromisoformat ''2024-06-01T15:00+09:00'' =
     Some \<lparr>year = 2024, month = 6, day = 1, hour = 15, minute = 0, second = 0,
            microsecond = 0, tzinfo = Some 32400\<rparr>"
  "sample_fromisoformat ''2024-06-01T06:00Z'' =
     Some \<lparr>year = 2024, month = 6, day = 1, hour = 6, minute = 0, second = 0,
            microsecond = 0, tzinfo = Some 0\<rparr>"
  by (simp_all add: sample_fromisoformat_def parse_seconds_def parse_offset_def digit_val_def
      is_digit_def valid_datetime_def days_in_month_def is_leap_def)

lemmas dec_samples =
  dec.simps [of 2024] dec.simps [of 202] dec.simps [of 20] dec.simps [of 2] dec.simps [of 6]
  dec.simps [of "Suc 0"] dec.simps [of 15] dec.simps [of 0]

lemma sample_readings:
  "readings sample_env 0 sample_cities =
     [Inr fukuoka_row, Inl (RequestException ''timed out''), Inr osaka_row, Inr tokyo_row]"
  by (simp add: read_city_def read_response_def sample_env_def scripted_network_def
      sample_cities_def forecast_def raise_for_status_def response_json_def
      datetime_fromisoformat_def sample_times directive_def zfill_def digit_char_def
      dec_samples pick_color_def
      fukuoka_row_def osaka_row_def tokyo_row_def request_for_def)

lemma sample_fetch:
  "fetch_weather_data sample_env sample_cities fresh_world = (sample_frame, sample_world)"
proof -
  have "failures sample_cities
          [Inr fukuoka_row, Inl (RequestException ''timed out''), Inr osaka_row, Inr tokyo_row] =
        [StError ''Saga'' (RequestException ''timed out'')]"
    by (simp add: sample_cities_def)
  then show ?thesis
    by (simp add: fetch_weather_data_eq fresh_world_def sample_readings DataFrame_def
        sample_frame_def sample_world_def)
qed

section \<open>Properties of the rows\<close>

lemma fetched_row_origin:
  assumes "fetch_weather_data env cities w = (df, w')" and "r \<in> set (records df)"
  shows "\<exists>i<length cities.
           read_city env (length (requests_sent w) + i) (cities ! i) = Inr r"
proof -
  from assms(1) have "records df = successes (readings env (length (requests_sent w)) cities)"
    by (auto simp: fetch_weather_data_eq DataFrame_def)
  with assms(2) show ?thesis by (simp add: row_origin)
qed

lemma read_city_Inr:
  assumes "read_city env k entry = Inr r"
  shows "\<exists>resp data cur t dt temp col elev.
           http_get env k (request_for entry) = Inr resp \<and>
           raise_for_status resp = Inr () \<and> response_json resp = Inr data \<and>
           getitem data ''current'' = Inr cur \<and> getitem cur ''time'' = Inr t \<and>
           datetime_fromisoformat env t = Inr dt \<and>
           getitem cur ''temperature_2m'' = Inr temp \<and>
           pick_color temp = Inr col \<and> py_mul temp 5000 = Inr elev \<and>
           r = \<lparr>lat = lat (snd entry), lon = lon (snd entry), City = fst entry,
                Temperature = temp, Time = strftime dt ''%Y/%m/%d %H:%M'',
                color = col, elevation = elev\<rparr>"
  using assms unfolding read_city_def by (rule read_response_Inr)

text \<open>
  C1. Every row of the result has a numeric temperature and one of the three colour
  buckets, chosen by the temperature alone with inclusive lower bounds: at least 20
  gives high, at least 10 and below 20 gives mid, below 10 gives low; two rows with
  the same temperature have the same colour.
\<close>

theorem color_bucket_by_temperature:
  assumes "fetch_weather_data env cities w = (df, w')" and "r \<in> set (records df)"
  shows "\<exists>t. as_number (Temperature r) = Some t \<and>
             (num_ge t 20 \<longrightarrow> colorBucket_of r = Some high) \<and>
             (num_ge t 10 \<and> num_lt t 20 \<longrightarrow> colorBucket_of r = Some mid) \<and>
             (num_lt t 10 \<longrightarrow> colorBucket_of r = Some low) \<and>
             colorBucket_of r \<noteq> None \<and>
             (\<forall>r' \<in> set (records df). Temperature r' = Temperature r \<longrightarrow> color r' = color r)"
proof -
  have col: "pick_color (Temperature x) = Inr (color x)" if "x \<in> set (records df)" for x
  proof -
    from fetched_row_origin [OF assms(1) that] obtain i
      where "read_city env (length (requests_sent w) + i) (cities ! i) = Inr x" by blast
    from read_city_Inr [OF this] show ?thesis by auto
  qed
  from pick_color_Inr [OF col [OF assms(2)]] obtain t
    where t: "as_number (Temperature r) = Some t"
      and c: "color r = (if num_ge t 20 then bucket_color high
                         else if num_ge t 10 then bucket_color mid else bucket_color low)"
    by blast
  have same: "color r' = color r" if "r' \<in> set (records df)" "Temperature r' = Temperature r" for r'
    using col [OF that(1)] col [OF assms(2)] that(2) by simp
  from c have "num_ge t 20 \<longrightarrow> colorBucket_of r = Some high"
    by (simp add: colorBucket_of_def)
  moreover from c have "num_ge t 10 \<and> num_lt t 20 \<longrightarrow> colorBucket_of r = Some mid"
    by (auto simp: colorBucket_of_def dest: num_lt_not_ge)
  moreover from c have "num_lt t 10 \<longrightarrow> colorBucket_of r = Some low"
    by (cases t) (auto simp: colorBucket_of_def)
  moreover from c have "colorBucket_of r \<noteq> None"
    by (simp add: colorBucket_of_def)
  ultimately show ?thesis using t same by blast
qed

text \<open>
  In the sample cycle the reading of exactly 20 is in the high bucket, the reading of
  exactly 10 in the mid bucket and the frost reading in the low bucket.
\<close>

theorem color_bucket_by_temperature_witness:
  "fetch_weather_data sample_env sample_cities fresh_world = (sample_frame, sample_world) \<and>
   fukuoka_row \<in> set (records sample_frame) \<and>
   Temperature fukuoka_row = JNumber (PyFloat 20) \<and> colorBucket_of fukuoka_row = Some high \<and>
   Temperature osaka_row = JNumber (PyFloat 10) \<and> colorBucket_of osaka_row = Some mid \<and>
   Temperature tokyo_row = JNumber (PyInt (- 5)) \<and> colorBucket_of tokyo_row = Some low"
proof -
  have f: "fukuoka_row \<in> set (records sample_frame)"
    and os: "osaka_row \<in> set (records sample_frame)"
    and t: "tokyo_row \<in> set (records sample_frame)"
    by (simp_all add: sample_frame_def)
  show ?thesis
    using color_bucket_by_temperature [OF sample_fetch f]
      color_bucket_by_temperature [OF sample_fetch os]
      color_bucket_by_temperature [OF sample_fetch t] sample_fetch f
    by (auto simp: fukuoka_row_def osaka_row_def tokyo_row_def)
qed

text \<open>
  C9. The colour of every row is one of the three fixed RGBA lists, the one of the
  row's bucket, and its alpha component, the last of the four, is 200.
\<close>

theorem color_is_one_of_three:
  assumes "fetch_weather_data env cities w = (df, w')" and "r \<in> set (records df)"
  shows "(\<exists>b. colorBucket_of r = Some b \<and> color r = bucket_color b) \<and>
         color r \<in> {[255, 100, 0, 200], [255, 200, 0, 200], [0, 150, 255, 200]} \<and>
         length (color r) = 4 \<and> color r ! 3 = 200"
proof -
  from fetched_row_origin [OF assms] obtain i
    where "read_city env (length (requests_sent w) + i) (cities ! i) = Inr r" by blast
  from read_city_Inr [OF this] have "pick_color (Temperature r) = Inr (color r)" by auto
  from pick_color_Inr [OF this] obtain t
    where "color r = (if num_ge t 20 then bucket_color high
                      else if num_ge t 10 then bucket_color mid else bucket_color low)"
    by blast
  then consider "color r = bucket_color high" | "color r = bucket_color mid"
    | "color r = bucket_color low"
    by (auto split: if_splits)
  then show ?thesis
    by cases (simp_all add: colorBucket_of_def)
qed

theorem color_is_one_of_three_witness:
  "fetch_weather_data sample_env sample_cities fresh_world = (sample_frame, sample_world) \<and>
   osaka_row \<in> set (records sample_frame) \<and>
   colorBucket_of osaka_row = Some mid \<and> color osaka_row = [255, 200, 0, 200] \<and>
   color osaka_row ! 3 = 200"
proof -
  have os: "osaka_row \<in> set (records sample_frame)"
    by (simp add: sample_frame_def)
  show ?thesis
    using color_is_one_of_three [OF sample_fetch os] sample_fetch os
    by (auto simp: osaka_row_def colorBucket_of_def)
qed







section \<open>Properties of the batch\<close>

lemma succeeded_names:
  "map City (successes (readings env n cities)) = succeeded cities (readings env n cities)"
proof (induction cities arbitrary: n)
  case Nil
  show ?case by simp
next
  case (Cons entry rest)
  show ?case
  proof (cases "read_city env n entry")
    case (Inl e)
    then show ?thesis by (simp add: Cons.IH)
  next
    case (Inr r)
    from read_city_Inr [OF this] have "City r = fst entry" by auto
    with Inr show ?thesis by (simp add: Cons.IH)
  qed
qed

lemma subseq_succeeded: "subseq (succeeded cities rs) (map fst cities)"
  by (induction cities rs rule: succeeded.induct) (auto intro: list_emb.intros)

lemma length_successes: "length (successes rs) = length (filter (\<lambda>x. \<not> isl x) rs)"
  by (induction rs rule: successes.induct) simp_all

lemma length_failures:
  "length rs = length cities \<Longrightarrow> length (failures cities rs) = length (filter isl rs)"
  by (induction cities rs rule: failures.induct) simp_all

lemma successes_plus_failures:
  "length (successes rs) + length (filter isl rs) = length rs"
  by (induction rs rule: successes.induct) simp_all

lemma failure_shown:
  "i < length cities \<Longrightarrow> length rs = length cities \<Longrightarrow> rs ! i = Inl e \<Longrightarrow>
   StError (fst (cities ! i)) e \<in> set (failures cities rs)"
proof (induction cities rs arbitrary: i rule: failures.induct)
  case (1 entry rest e' xs)
  then show ?case by (cases i) auto
next
  case (2 entry rest r xs)
  then show ?case by (cases i) auto
qed simp_all

text \<open>
  C7. The rows of the result are the successful readings of the table, one each and in
  the order of the table: their names are the names of the locations whose reading
  succeeded, a subsequence of the names of the table.
\<close>

theorem rows_follow_table_order:
  "records (fst (fetch_weather_data env cities w)) =
     successes (readings env (length (requests_sent w)) cities) \<and>
   map City (records (fst (fetch_weather_data env cities w))) =
     succeeded cities (readings env (length (requests_sent w)) cities) \<and>
   subseq (map City (records (fst (fetch_weather_data env cities w)))) (map fst cities) \<and>
   length (records (fst (fetch_weather_data env cities w))) =
     length (filter (\<lambda>x. \<not> isl x) (readings env (length (requests_sent w)) cities))"
  by (simp add: fetch_weather_data_eq DataFrame_def succeeded_names subseq_succeeded
      length_successes)

text \<open>
  C8. A cycle sends one request per entry of the table, in the order of the table and
  whatever the earlier answers were; each goes to the forecast endpoint with the
  parameters latitude and longitude of that entry, \<^verbatim>\<open>current=temperature_2m\<close> and
  \<^verbatim>\<open>timezone=Asia/Tokyo\<close>, and no others.
\<close>

theorem requests_carry_the_four_parameters:
  "requests_sent (snd (fetch_weather_data env cities w)) =
     requests_sent w @
     map (\<lambda>entry. \<lparr>url = ''https://api.open-meteo.com/v1/forecast'',
                    params = [(''latitude'', JNumber (PyFloat (lat (snd entry)))),
                              (''longitude'', JNumber (PyFloat (lon (snd entry)))),
                              (''current'', JString ''temperature_2m''),
                              (''timezone'', JString ''Asia/Tokyo'')]\<rparr>) cities"
  by (simp add: fetch_weather_data_eq request_for_def BASE_URL_def make_params_def)

text \<open>
  C2. A cycle sends the request of every location of the table; the reading of a
  location depends on the answer to its own request only; a location whose reading
  succeeds has its row in the result, a location whose reading raises has an error
  with its name on the page and no row; the result has as many rows as the table has
  entries, less the failures. The result is a frame in every case: the handler of the
  loop catches whatever the body raises.
\<close>

theorem failures_are_isolated:
  assumes "fetch_weather_data env cities w = (df, w')"
  shows "requests_sent w' = requests_sent w @ map request_for cities \<and>
         (\<forall>i<length cities.
            case read_city env (length (requests_sent w) + i) (cities ! i) of
              Inr r \<Rightarrow> r \<in> set (records df) \<and> City r = fst (cities ! i)
            | Inl e \<Rightarrow> StError (fst (cities ! i)) e \<in> set (page w')) \<and>
         records df = successes (readings env (length (requests_sent w)) cities) \<and>
         page w' = page w @ failures cities (readings env (length (requests_sent w)) cities) \<and>
         length (failures cities (readings env (length (requests_sent w)) cities)) =
           length (filter isl (readings env (length (requests_sent w)) cities)) \<and>
         length (records df) =
           length cities - length (filter isl (readings env (length (requests_sent w)) cities))"
proof -
  let ?rs = "readings env (length (requests_sent w)) cities"
  from assms have df: "records df = successes ?rs"
    and sent: "requests_sent w' = requests_sent w @ map request_for cities"
    and pg: "page w' = page w @ failures cities ?rs"
    by (auto simp: fetch_weather_data_eq DataFrame_def)
  have each: "case read_city env (length (requests_sent w) + i) (cities ! i) of
                Inr r \<Rightarrow> r \<in> set (records df) \<and> City r = fst (cities ! i)
              | Inl e \<Rightarrow> StError (fst (cities ! i)) e \<in> set (page w')"
    if i: "i < length cities" for i
  proof (cases "read_city env (length (requests_sent w) + i) (cities ! i)")
    case (Inl e)
    with i have "?rs ! i = Inl e" by (simp add: readings_nth)
    from failure_shown [OF i _ this] have "StError (fst (cities ! i)) e \<in> set (failures cities ?rs)"
      by simp
    with Inl pg show ?thesis by simp
  next
    case (Inr r)
    with i have "?rs ! i = Inr r" by (simp add: readings_nth)
    with i have "Inr r \<in> set ?rs" by (metis length_readings nth_mem)
    moreover from read_city_Inr [OF Inr] have "City r = fst (cities ! i)" by auto
    ultimately show ?thesis using Inr df by (simp add: successes_set)
  qed
  have count: "length (records df) = length cities - length (filter isl ?rs)"
    using successes_plus_failures [of ?rs] df by simp
  from sent each df pg count show ?thesis
    by (simp add: length_failures)
qed

text \<open>
  In the sample cycle the request for Saga times out: all four requests are sent, the
  page shows the error for Saga, and the three other locations have their rows.
\<close>

theorem failures_are_isolated_witness:
  "fetch_weather_data sample_env sample_cities fresh_world = (sample_frame, sample_world) \<and>
   requests_sent sample_world = map request_for sample_cities \<and>
   length (records sample_frame) = 4 - 1 \<and>
   map City (records sample_frame) = [''Fukuoka'', ''Osaka'', ''Tokyo''] \<and>
   page sample_world = [StError ''Saga'' (RequestException ''timed out'')]"
proof -
  from failures_are_isolated [OF sample_fetch]
  have "requests_sent sample_world = requests_sent fresh_world @ map request_for sample_cities"
    by (rule conjunct1)
  then have "requests_sent sample_world = map request_for sample_cities"
    by (simp add: fresh_world_def)
  moreover have "length (records sample_frame) = 4 - 1"
    "map City (records sample_frame) = [''Fukuoka'', ''Osaka'', ''Tokyo'']"
    "page sample_world = [StError ''Saga'' (RequestException ''timed out'')]"
    by (simp_all add: sample_frame_def sample_world_def fukuoka_row_def osaka_row_def
        tokyo_row_def)
  ultimately show ?thesis using sample_fetch
    by (intro conjI)
qed

section \<open>Properties of the page\<close>






lemma no_rows_when_all_fail:
  assumes "\<And>n req. isl (http_get env n req)"
  shows "successes (readings env n cities) = []"
proof (induction cities arbitrary: n)
  case Nil
  show ?case by simp
next
  case (Cons entry rest)
  from assms [of n "request_for entry"] obtain e
    where "http_get env n (request_for entry) = Inl e"
    by (cases "http_get env n (request_for entry)") auto
  then have "read_city env n entry = Inl e"
    by (simp add: read_city_def read_response_def)
  then show ?case by (simp add: Cons.IH)
qed

lemma script_raises_when_all_fail:
  assumes "\<And>n req. isl (http_get env n req)" and "cache w = None"
  shows "fst (script env now clicked w) =
           Raised (PandasKeyError [''City'', ''Temperature'', ''Time''])"
  using assms(2)
  by (simp add: script_def cached_fetch_weather_data_def fetch_weather_data_eq
      no_rows_when_all_fail [OF assms(1)] DataFrame_def select_columns_def)

lemma script_finishes_with_a_row:
  assumes "successes (readings env (length (requests_sent w)) target_cities) \<noteq> []"
    and "cache w = None"
  shows "fst (script env now False w) = Finished"
  using assms
  by (simp add: script_def cached_fetch_weather_data_def fetch_weather_data_eq
      DataFrame_def select_columns_def Let_def)

text \<open>
  C4. When the network is unreachable for all nine locations, the fetch returns a frame
  without rows and without columns, and the run ends with the \<^verbatim>\<open>KeyError\<close> of the
  column selection for the listing: the page holds the nine errors and neither the
  listing nor the map.
\<close>

theorem full_failure_raises:
  "fst (fetch_weather_data offline target_cities fresh_world) = \<lparr>columns = [], records = []\<rparr> \<and>
   fst (script offline 0 False fresh_world) =
     Raised (PandasKeyError [''City'', ''Temperature'', ''Time'']) \<and>
   page (snd (script offline 0 False fresh_world)) =
     map (\<lambda>entry. StError (fst entry) (RequestException ''unreachable'')) target_cities"
proof -
  have down: "isl (http_get offline n req)" for n req
    by (simp add: offline_def scripted_network_def)
  have rd: "readings offline n cities =
              map (\<lambda>entry. Inl (RequestException ''unreachable'')) cities" for n cities
    by (induction cities arbitrary: n)
      (simp_all add: read_city_def read_response_def offline_def scripted_network_def)
  have fl: "failures cities (map (\<lambda>entry. Inl e) cities) =
              map (\<lambda>entry. StError (fst entry) e) cities" for cities :: "(string \<times> coords) list" and e
    by (induction cities) simp_all
  have sc: "successes (map (\<lambda>entry. Inl e) cities) = []"
    for cities :: "(string \<times> coords) list" and e
    by (induction cities) simp_all
  have "fst (fetch_weather_data offline target_cities fresh_world) = \<lparr>columns = [], records = []\<rparr>"
    by (simp add: fetch_weather_data_eq no_rows_when_all_fail [OF down] DataFrame_def)
  moreover have "fst (script offline 0 False fresh_world) =
      Raised (PandasKeyError [''City'', ''Temperature'', ''Time''])"
    by (rule script_raises_when_all_fail [OF down]) (simp add: fresh_world_def)
  moreover have "page (snd (script offline 0 False fresh_world)) =
      map (\<lambda>entry. StError (fst entry) (RequestException ''unreachable'')) target_cities"
    by (simp add: script_def cached_fetch_weather_data_def fetch_weather_data_eq
        DataFrame_def select_columns_def fresh_world_def rd fl sc)
  ultimately show ?thesis by (intro conjI)
qed

end
